theory Spec2Isabelle
  imports Main "HOL-Library.Sublist"
begin

section \<open>Branch operations of \<^verbatim>\<open>app/src/lib/git/branch.ts\<close>\<close>

text \<open>
  The module builds argument lists for the \<^verbatim>\<open>git\<close> executable, awaits the
  command gateway and a handful of collaborators, and interprets what they return.
  Every \<^verbatim>\<open>await\<close> is a step of a sequential computation that either
  yields a value or rejects with an error; the model threads an abstract state of the
  outside world through those steps and records each collaborator call, with its
  outcome, in a trace.
\<close>

subsection \<open>Values\<close>

text \<open>\<^verbatim>\<open>BranchType\<close> and \<^verbatim>\<open>Branch\<close> of \<^verbatim>\<open>models/branch\<close>: the four attributes
  the module reads. \<^verbatim>\<open>remote\<close> is \<^verbatim>\<open>string | null\<close>.\<close>

datatype BranchType = Local | Remote

record Branch =
  name :: string
  nameWithoutRemote :: string
  type :: BranchType
  remote :: "string option"

text \<open>\<^verbatim>\<open>Repository\<close>: only its \<^verbatim>\<open>path\<close> is read here.\<close>

record Repository =
  path :: string

text \<open>The classified errors of the \<^verbatim>\<open>dugite\<close> library. The module names only
  \<^verbatim>\<open>BranchDeletionFailed\<close>; two authentication failures are spelled out and every
  other member of the enumeration is \<open>OtherDugiteError\<close> with its ordinal.\<close>

datatype DugiteError =
    BranchDeletionFailed
  | HTTPSAuthenticationFailed
  | SSHAuthenticationFailed
  | OtherDugiteError nat

type_synonym environment = "(string \<times> string) list"

text \<open>What the gateway hands back: exit code, the two output streams and the
  classified error, \<^verbatim>\<open>null\<close> when there is none.\<close>

record IGitResult =
  exitCode :: int
  stdout :: string
  stderr :: string
  gitError :: "DugiteError option"

text \<open>The options object of a gateway call; a key that the caller leaves out is
  \<open>None\<close>.\<close>

record IGitExecutionOptions =
  env :: "environment option"
  successExitCodes :: "int set option"
  expectedErrors :: "DugiteError set option"

text \<open>A rejected promise: the gateway's own error, which carries the result and the
  arguments of the failed command, or whatever another collaborator threw.\<close>

datatype error =
    GitError IGitResult "string list"
  | CollaboratorError string

subsection \<open>Strings and arrays of the host language\<close>

definition NUL :: char where
  "NUL = CHR 0x00"

definition LF :: char where
  "LF = CHR 0x0A"

text \<open>\<^verbatim>\<open>s.split(sep)\<close> for a separator of one character: the segments between the
  separators, always at least one (\<^verbatim>\<open>''.split(sep)\<close> is \<^verbatim>\<open>['']\<close>).\<close>

fun split_js :: "char \<Rightarrow> string \<Rightarrow> string list" where
  "split_js sep [] = [[]]"
| "split_js sep (c # cs) =
     (if c = sep then [] # split_js sep cs
      else (case split_js sep cs of
              [] \<Rightarrow> [[c]]
            | seg # segs \<Rightarrow> (c # seg) # segs))"

text \<open>\<^verbatim>\<open>xs.slice(0, -1)\<close> and \<^verbatim>\<open>xs.splice(-1, 1)\<close> both leave the array without its
  last element, and leave an empty array empty: \<^const>\<open>butlast\<close>.
  Reading position \<open>i\<close> of an array gives \<^verbatim>\<open>undefined\<close> past its end.\<close>

fun element :: "'a list \<Rightarrow> nat \<Rightarrow> 'a option" where
  "element [] i = None"
| "element (x # xs) 0 = Some x"
| "element (x # xs) (Suc i) = element xs i"

text \<open>A value of type \<^verbatim>\<open>string | null\<close> in a boolean position: \<^verbatim>\<open>null\<close> and the
  empty string are falsy. \<^verbatim>\<open>a || b\<close> is \<open>a\<close> when \<open>a\<close> is truthy and \<open>b\<close> otherwise.\<close>

fun truthy :: "string option \<Rightarrow> bool" where
  "truthy None = False"
| "truthy (Some s) = (s \<noteq> [])"

fun or_else :: "string option \<Rightarrow> string \<Rightarrow> string" where
  "or_else None b = b"
| "or_else (Some a) b = (if a \<noteq> [] then a else b)"

subsection \<open>The outside world\<close>

text \<open>The collaborators the module imports, as functions of an abstract state \<open>'s\<close>
  of the outside world (file system, remote server, configuration). Those that are
  awaited return a result or an error together with the next state.
  \<open>exec\<close> runs the \<^verbatim>\<open>git\<close> process behind the gateway. \<open>'acct\<close> is
  \<^verbatim>\<open>IGitAccount\<close>, which this module only passes on.\<close>

record ('s, 'acct) world =
  exec :: "string list \<Rightarrow> string \<Rightarrow> environment option \<Rightarrow> 's \<Rightarrow> IGitResult \<times> 's"
  getBranches :: "Repository \<Rightarrow> string \<Rightarrow> 's \<Rightarrow> (error + Branch list) \<times> 's"
  deleteRef :: "Repository \<Rightarrow> string \<Rightarrow> 's \<Rightarrow> (error + unit) \<times> 's"
  gitNetworkArguments :: "Repository \<Rightarrow> 'acct option \<Rightarrow> 's \<Rightarrow> (error + string list) \<times> 's"
  getRemoteURL :: "Repository \<Rightarrow> string \<Rightarrow> 's \<Rightarrow> (error + string option) \<times> 's"
  envForRemoteOperation :: "'acct option \<Rightarrow> string \<Rightarrow> 's \<Rightarrow> (error + environment) \<times> 's"
  getFallbackUrlForProxyResolve :: "'acct option \<Rightarrow> Repository \<Rightarrow> string"
  formatAsLocalRef :: "string \<Rightarrow> string"

text \<open>One entry of the trace per call that leaves the module, with what came back.\<close>

datatype 'acct event =
    Exec "string list" string string IGitExecutionOptions IGitResult
  | GetBranches Repository string "error + Branch list"
  | DeleteRef Repository string "error + unit"
  | GitNetworkArguments Repository "'acct option" "error + string list"
  | GetRemoteURL Repository string "error + string option"
  | EnvForRemoteOperation "'acct option" string "error + environment"
  | LogError string error

subsection \<open>Asynchronous computations\<close>

text \<open>A computation takes the state of the world and gives a value or an error, the
  next state and the calls it made. \<open>io_bind\<close> is \<^verbatim>\<open>await\<close> followed by the rest
  of the function body: an error ends the body. \<open>io_catch\<close> is
  \<^verbatim>\<open>promise.catch(handler)\<close>.\<close>

type_synonym ('a, 's, 'acct) io = "'s \<Rightarrow> (error + 'a) \<times> 's \<times> 'acct event list"

definition io_return :: "'a \<Rightarrow> ('a, 's, 'acct) io" where
  "io_return x = (\<lambda>s. (Inr x, s, []))"

definition io_bind :: "('a, 's, 'acct) io \<Rightarrow> ('a \<Rightarrow> ('b, 's, 'acct) io) \<Rightarrow> ('b, 's, 'acct) io" where
  "io_bind m f = (\<lambda>s.
     case m s of
       (Inl e, s1, t1) \<Rightarrow> (Inl e, s1, t1)
     | (Inr x, s1, t1) \<Rightarrow> (case f x s1 of (r, s2, t2) \<Rightarrow> (r, s2, t1 @ t2)))"

definition io_catch :: "('a, 's, 'acct) io \<Rightarrow> (error \<Rightarrow> ('a, 's, 'acct) io) \<Rightarrow> ('a, 's, 'acct) io" where
  "io_catch m h = (\<lambda>s.
     case m s of
       (Inl e, s1, t1) \<Rightarrow> (case h e s1 of (r, s2, t2) \<Rightarrow> (r, s2, t1 @ t2))
     | (Inr x, s1, t1) \<Rightarrow> (Inr x, s1, t1))"

text \<open>A call of a collaborator: run it on the state and record it.\<close>

definition call :: "('s \<Rightarrow> (error + 'a) \<times> 's) \<Rightarrow> (error + 'a \<Rightarrow> 'acct event) \<Rightarrow> ('a, 's, 'acct) io" where
  "call f ev = (\<lambda>s. case f s of (r, s1) \<Rightarrow> (r, s1, [ev r]))"

definition log_error :: "string \<Rightarrow> error \<Rightarrow> (unit, 's, 'acct) io" where
  "log_error msg err = (\<lambda>s. (Inr (), s, [LogError msg err]))"

subsection \<open>The command gateway\<close>

text \<open>Modelled from the spec: the command gateway \<^verbatim>\<open>git\<close> of \<^verbatim>\<open>./core\<close>, which
  is not among the sources. It executes the command with the given arguments, working
  directory and environment and returns exit code, output and the classified error; a
  command failure is propagated unless the exit code is in the caller's set of
  non-fatal exit codes or the classified error is in the caller's set of expected
  errors. Without a set of the caller's, only exit code 0 is a success and no error is
  expected.\<close>

definition git :: "('s, 'acct) world \<Rightarrow> string list \<Rightarrow> string \<Rightarrow> string \<Rightarrow> IGitExecutionOptions
    \<Rightarrow> (IGitResult, 's, 'acct) io" where
  "git w args dir label opts = (\<lambda>s.
     case exec w args dir (env opts) s of
       (result, s1) \<Rightarrow>
         (let acceptableExitCode =
                (exitCode result \<in> (case successExitCodes opts of None \<Rightarrow> {0} | Some codes \<Rightarrow> codes));
              acceptableError =
                (case gitError result of
                   None \<Rightarrow> False
                 | Some e \<Rightarrow> e \<in> (case expectedErrors opts of None \<Rightarrow> {} | Some es \<Rightarrow> es))
          in (if acceptableExitCode \<or> acceptableError then Inr result
              else Inl (GitError result args),
              s1, [Exec args dir label opts result])))"

definition noOptions :: IGitExecutionOptions where
  "noOptions = \<lparr>env = None, successExitCodes = None, expectedErrors = None\<rparr>"

subsection \<open>Lifecycle\<close>

text \<open>\<^verbatim>\<open>createBranch\<close>. The argument list is built first, then the command runs and
  the new ref is looked up; the promise resolves to the first branch found or to
  \<^verbatim>\<open>null\<close>.\<close>

definition createBranch_args :: "string \<Rightarrow> string option \<Rightarrow> string list" where
  "createBranch_args branchName startPoint =
     (let args = (case startPoint of
                    Some sp \<Rightarrow> [''branch'', branchName, sp]
                  | None \<Rightarrow> [''branch'', branchName])
      in case startPoint of
           Some sp \<Rightarrow> if prefix ''remotes/'' sp then args @ [''--no-track''] else args
         | None \<Rightarrow> args)"

definition createBranch :: "('s, 'acct) world \<Rightarrow> Repository \<Rightarrow> string \<Rightarrow> string option
    \<Rightarrow> (Branch option, 's, 'acct) io" where
  "createBranch w repository branchName startPoint =
     io_bind
       (git w (createBranch_args branchName startPoint) (path repository) ''createBranch''
          noOptions)
       (\<lambda>_.
          io_bind
            (call (getBranches w repository (''refs/heads/'' @ branchName))
               (GetBranches repository (''refs/heads/'' @ branchName)))
            (\<lambda>branches.
               case branches of
                 b # _ \<Rightarrow> io_return (Some b)
               | [] \<Rightarrow> io_return None))"

definition renameBranch :: "('s, 'acct) world \<Rightarrow> Repository \<Rightarrow> Branch \<Rightarrow> string
    \<Rightarrow> (unit, 's, 'acct) io" where
  "renameBranch w repository branch newName =
     io_bind
       (git w [''branch'', ''-m'', nameWithoutRemote branch, newName] (path repository)
          ''renameBranch'' noOptions)
       (\<lambda>_. io_return ())"

definition deleteLocalBranch :: "('s, 'acct) world \<Rightarrow> Repository \<Rightarrow> string
    \<Rightarrow> (bool, 's, 'acct) io" where
  "deleteLocalBranch w repository branchName =
     io_bind
       (git w [''branch'', ''-D'', branchName] (path repository) ''deleteLocalBranch''
          noOptions)
       (\<lambda>_. io_return True)"

text \<open>\<^verbatim>\<open>deleteBranch\<close>. The condition \<^verbatim>\<open>includeRemote && remoteName\<close> holds when
  \<open>includeRemote\<close> is true and \<open>remoteName\<close> is neither \<^verbatim>\<open>null\<close> nor empty. The
  handler of \<^verbatim>\<open>catch\<close> logs and yields \<^verbatim>\<open>null\<close>, so that a failed lookup and a
  lookup without a URL both leave the fallback URL. The environment of the push is
  awaited while the options object is built, before the gateway is entered.\<close>

definition deleteBranch :: "('s, 'acct) world \<Rightarrow> Repository \<Rightarrow> Branch \<Rightarrow> 'acct option \<Rightarrow> bool
    \<Rightarrow> (bool, 's, 'acct) io" where
  "deleteBranch w repository branch account includeRemote =
     io_bind
       (if type branch = Local
        then io_bind (deleteLocalBranch w repository (name branch)) (\<lambda>_. io_return ())
        else io_return ())
       (\<lambda>_.
          case remote branch of
            None \<Rightarrow> io_return True
          | Some remoteName \<Rightarrow>
              if includeRemote \<and> truthy (Some remoteName) then
                io_bind
                  (call (gitNetworkArguments w repository account)
                     (GitNetworkArguments repository account))
                  (\<lambda>networkArguments.
                     io_bind
                       (io_catch
                          (call (getRemoteURL w repository remoteName)
                             (GetRemoteURL repository remoteName))
                          (\<lambda>err.
                             io_bind
                               (log_error
                                  (''Could not resolve remote url for remote '' @ remoteName) err)
                               (\<lambda>_. io_return None)))
                       (\<lambda>url.
                          let remoteUrl =
                                or_else url (getFallbackUrlForProxyResolve w account repository);
                              args = networkArguments
                                       @ [''push'', remoteName, '':'' @ nameWithoutRemote branch]
                          in io_bind
                               (call (envForRemoteOperation w account remoteUrl)
                                  (EnvForRemoteOperation account remoteUrl))
                               (\<lambda>environment.
                                  io_bind
                                    (git w args (path repository) ''deleteRemoteBranch''
                                       \<lparr>env = Some environment, successExitCodes = None,
                                        expectedErrors = Some {BranchDeletionFailed}\<rparr>)
                                    (\<lambda>result.
                                       io_bind
                                         (if gitError result = Some BranchDeletionFailed
                                          then let ref = ''refs/remotes/'' @ remoteName @ ''/''
                                                           @ nameWithoutRemote branch
                                               in call (deleteRef w repository ref)
                                                    (DeleteRef repository ref)
                                          else io_return ())
                                         (\<lambda>_. io_return True)))))
              else io_return True)"

subsection \<open>Queries\<close>

text \<open>\<^verbatim>\<open>getBranchesPointedAt\<close>: the promise resolves to an array of names or to
  \<^verbatim>\<open>null\<close>.\<close>

definition pointedAt_args :: "string \<Rightarrow> string list" where
  "pointedAt_args commitish =
     [''branch'', ''--points-at='' @ commitish, ''--format=%(refname:short)'']"

definition getBranchesPointedAt :: "('s, 'acct) world \<Rightarrow> Repository \<Rightarrow> string
    \<Rightarrow> (string list option, 's, 'acct) io" where
  "getBranchesPointedAt w repository commitish =
     io_bind
       (git w (pointedAt_args commitish) (path repository) ''branchPointedAt''
          \<lparr>env = None, successExitCodes = Some {0, 1, 129}, expectedErrors = None\<rparr>)
       (\<lambda>result.
          if exitCode result = 1 \<or> exitCode result = 129 then io_return None
          else io_return (Some (butlast (split_js LF (stdout result)))))"

text \<open>\<^verbatim>\<open>getMergedBranches\<close>. The loop over the lines carries the map that
  \<^verbatim>\<open>mergedBranches.set\<close> updates; a \<^verbatim>\<open>Map\<close> keeps one value per key, and its
  order of insertion is not modelled.\<close>

definition mergedBranches_args :: "string \<Rightarrow> string list" where
  "mergedBranches_args branchName =
     [''branch'', ''--format=%(objectname)%00%(refname)'', ''--merged'', branchName]"

fun mergedBranches_loop :: "string \<Rightarrow> string list \<Rightarrow> (string \<rightharpoonup> string) \<Rightarrow> (string \<rightharpoonup> string)" where
  "mergedBranches_loop canonicalBranchRef [] mergedBranches = mergedBranches"
| "mergedBranches_loop canonicalBranchRef (line # lines) mergedBranches =
     (let fields = split_js NUL line in
      case (element fields 0, element fields 1) of
        (Some sha, Some canonicalRef) \<Rightarrow>
          if canonicalRef = canonicalBranchRef
          then mergedBranches_loop canonicalBranchRef lines mergedBranches
          else mergedBranches_loop canonicalBranchRef lines (mergedBranches(canonicalRef \<mapsto> sha))
      | _ \<Rightarrow> mergedBranches_loop canonicalBranchRef lines mergedBranches)"

definition getMergedBranches :: "('s, 'acct) world \<Rightarrow> Repository \<Rightarrow> string
    \<Rightarrow> (string \<rightharpoonup> string, 's, 'acct) io" where
  "getMergedBranches w repository branchName =
     (let canonicalBranchRef = formatAsLocalRef w branchName in
      io_bind
        (git w (mergedBranches_args branchName) (path repository) ''mergedBranches'' noOptions)
        (\<lambda>result.
           let lines = butlast (split_js LF (stdout result))
           in io_return (mergedBranches_loop canonicalBranchRef lines Map.empty)))"

subsection \<open>Observing a run\<close>

text \<open>What a computation started in state \<open>s\<close> leaves: the value or the error of
  the promise, the calls made on the way, and the state of the world afterwards.\<close>

definition result_of :: "('a, 's, 'acct) io \<Rightarrow> 's \<Rightarrow> error + 'a" where
  "result_of m s = fst (m s)"

definition trace_of :: "('a, 's, 'acct) io \<Rightarrow> 's \<Rightarrow> 'acct event list" where
  "trace_of m s = snd (snd (m s))"

definition state_of :: "('a, 's, 'acct) io \<Rightarrow> 's \<Rightarrow> 's" where
  "state_of m s = fst (snd (m s))"

text \<open>The parts of a trace of \<^verbatim>\<open>deleteBranch\<close>: the event of the local deletion,
  the event of the push with its arguments and options, the tracking ref, the events of
  the URL lookup (the call and, when it failed, the log entry) and the URL that the
  lookup leaves.\<close>

definition local_event :: "Repository \<Rightarrow> Branch \<Rightarrow> IGitResult \<Rightarrow> 'acct event" where
  "local_event repository branch r =
     Exec [''branch'', ''-D'', name branch] (path repository) ''deleteLocalBranch'' noOptions r"

definition push_options :: "environment \<Rightarrow> IGitExecutionOptions" where
  "push_options environment =
     \<lparr>env = Some environment, successExitCodes = None,
      expectedErrors = Some {BranchDeletionFailed}\<rparr>"

definition push_args :: "string list \<Rightarrow> string \<Rightarrow> Branch \<Rightarrow> string list" where
  "push_args networkArguments remoteName branch =
     networkArguments @ [''push'', remoteName, '':'' @ nameWithoutRemote branch]"

definition push_event :: "Repository \<Rightarrow> Branch \<Rightarrow> string \<Rightarrow> string list \<Rightarrow> environment
    \<Rightarrow> IGitResult \<Rightarrow> 'acct event" where
  "push_event repository branch remoteName networkArguments environment r =
     Exec (push_args networkArguments remoteName branch) (path repository)
       ''deleteRemoteBranch'' (push_options environment) r"

definition tracking_ref :: "string \<Rightarrow> Branch \<Rightarrow> string" where
  "tracking_ref remoteName branch = ''refs/remotes/'' @ remoteName @ ''/'' @ nameWithoutRemote branch"

fun url_events :: "Repository \<Rightarrow> string \<Rightarrow> error + string option \<Rightarrow> 'acct event list" where
  "url_events repository remoteName (Inl err) =
     [GetRemoteURL repository remoteName (Inl err),
      LogError (''Could not resolve remote url for remote '' @ remoteName) err]"
| "url_events repository remoteName (Inr url) = [GetRemoteURL repository remoteName (Inr url)]"

fun resolved_url :: "('s, 'acct) world \<Rightarrow> 'acct option \<Rightarrow> Repository \<Rightarrow> error + string option \<Rightarrow> string" where
  "resolved_url w account repository (Inl err) = getFallbackUrlForProxyResolve w account repository"
| "resolved_url w account repository (Inr url) =
     or_else url (getFallbackUrlForProxyResolve w account repository)"

text \<open>The local deletion is over without an error: state and events it leaves.\<close>

definition local_done :: "('s, 'acct) world \<Rightarrow> Repository \<Rightarrow> Branch \<Rightarrow> 's \<Rightarrow> 's \<Rightarrow> 'acct event list \<Rightarrow> bool" where
  "local_done w repository branch s s0 t0 \<longleftrightarrow>
     (if type branch = Local
      then (\<exists>r0. exec w [''branch'', ''-D'', name branch] (path repository) None s = (r0, s0)
                \<and> exitCode r0 = 0 \<and> t0 = [local_event repository branch r0])
      else s0 = s \<and> t0 = [])"

fun is_DeleteRef :: "'acct event \<Rightarrow> bool" where
  "is_DeleteRef (DeleteRef repository ref outcome) = True"
| "is_DeleteRef _ = False"

fun is_GitNetworkArguments :: "'acct event \<Rightarrow> bool" where
  "is_GitNetworkArguments (GitNetworkArguments repository account outcome) = True"
| "is_GitNetworkArguments _ = False"

fun is_push :: "'acct event \<Rightarrow> bool" where
  "is_push (Exec args dir label opts result) = (label = ''deleteRemoteBranch'')"
| "is_push _ = False"

subsection \<open>Concrete worlds\<close>

text \<open>A world without state in which every collaborator answers the same way on each
  call: the push ends with \<open>pushResult\<close>, every other command with \<open>listing\<close>, and
  the URL lookup and the ref deletion give the outcomes named. The canonical ref of a
  branch name is the name after \<^verbatim>\<open>refs/heads/\<close>.\<close>

definition fixed_world :: "IGitResult \<Rightarrow> IGitResult \<Rightarrow> error + string option \<Rightarrow> error + unit
    \<Rightarrow> (unit, string) world" where
  "fixed_world pushResult listing urlOutcome deleteRefOutcome =
     \<lparr>exec = (\<lambda>args dir e s. (if ''push'' \<in> set args then pushResult else listing, s)),
      getBranches = (\<lambda>repository pattern s. (Inr [], s)),
      deleteRef = (\<lambda>repository ref s. (deleteRefOutcome, s)),
      gitNetworkArguments = (\<lambda>repository account s. (Inr [''-c'', ''credential.helper=''], s)),
      getRemoteURL = (\<lambda>repository remoteName s. (urlOutcome, s)),
      envForRemoteOperation = (\<lambda>account url s. (Inr [(''REMOTE_URL'', url)], s)),
      getFallbackUrlForProxyResolve = (\<lambda>account repository. ''https://github.com''),
      formatAsLocalRef = (\<lambda>branchName. ''refs/heads/'' @ branchName)\<rparr>"

definition git_output :: "int \<Rightarrow> string \<Rightarrow> DugiteError option \<Rightarrow> IGitResult" where
  "git_output code out err = \<lparr>exitCode = code, stdout = out, stderr = [], gitError = err\<rparr>"

definition succeeded :: IGitResult where
  "succeeded = git_output 0 [] None"

definition already_gone :: IGitResult where
  "already_gone = git_output 1 [] (Some BranchDeletionFailed)"

definition auth_failed :: IGitResult where
  "auth_failed = git_output 128 [] (Some HTTPSAuthenticationFailed)"

definition two_line_listing :: IGitResult where
  "two_line_listing =
     git_output 0
       (''1f2e3d'' @ NUL # ''refs/heads/x'' @ LF # ''4c5b6a'' @ NUL # ''refs/heads/y'' @ [LF]) None"

definition malformed_listing :: IGitResult where
  "malformed_listing =
     git_output 0
       (''1f2e3d'' @ NUL # ''refs/heads/x'' @ LF # ''warning'' @ LF
          # ''4c5b6a'' @ NUL # ''refs/heads/y'' @ [LF]) None"

text \<open>A world whose state is the list of refs of the repository: a local deletion
  removes the branch's ref, the push finds the branch already gone on the remote, and
  \<^verbatim>\<open>deleteRef\<close> removes the ref it is given.\<close>

definition ref_world :: "(string list, string) world" where
  "ref_world =
     \<lparr>exec = (\<lambda>args dir e refs.
               case args of
                 [command, flag, branchName] \<Rightarrow>
                   if command = ''branch'' \<and> flag = ''-D''
                   then (succeeded, removeAll (''refs/heads/'' @ branchName) refs)
                   else (succeeded, refs)
               | _ \<Rightarrow> (if ''push'' \<in> set args then already_gone else succeeded, refs)),
      getBranches = (\<lambda>repository pattern refs. (Inr [], refs)),
      deleteRef = (\<lambda>repository ref refs. (Inr (), removeAll ref refs)),
      gitNetworkArguments = (\<lambda>repository account refs. (Inr [''-c'', ''credential.helper=''], refs)),
      getRemoteURL =
        (\<lambda>repository remoteName refs. (Inr (Some ''https://example.com/repo.git''), refs)),
      envForRemoteOperation = (\<lambda>account url refs. (Inr [(''REMOTE_URL'', url)], refs)),
      getFallbackUrlForProxyResolve = (\<lambda>account repository. ''https://github.com''),
      formatAsLocalRef = (\<lambda>branchName. ''refs/heads/'' @ branchName)\<rparr>"

definition repo0 :: Repository where
  "repo0 = \<lparr>path = ''/work/repo''\<rparr>"

definition feature_branch :: Branch where
  "feature_branch =
     \<lparr>name = ''feature'', nameWithoutRemote = ''feature'', type = Local, remote = Some ''origin''\<rparr>"

definition remote_branch :: Branch where
  "remote_branch =
     \<lparr>name = ''origin/feature'', nameWithoutRemote = ''feature'', type = Remote,
      remote = Some ''origin''\<rparr>"

section \<open>Properties\<close>

subsection \<open>Splitting\<close>

lemma split_js_nonempty: "split_js sep s \<noteq> []"
  by (induction s) (auto split: list.splits)

lemma split_js_no_sep: "sep \<notin> set s \<Longrightarrow> split_js sep s = [s]"
  by (induction s) auto

lemma split_js_append: "split_js sep (a @ sep # b) = split_js sep a @ split_js sep b"
proof (induction a)
  case Nil
  then show ?case by simp
next
  case (Cons x a)
  then show ?case
    by (cases "split_js sep a") (auto simp: split_js_nonempty)
qed

lemma split_js_terminated:
  "sep \<notin> set seg \<Longrightarrow> butlast (split_js sep (a @ sep # seg)) = split_js sep a"
  by (simp add: split_js_append split_js_no_sep butlast_append)

subsection \<open>Runs of \<^verbatim>\<open>deleteBranch\<close>\<close>

lemmas io_defs = io_bind_def io_return_def io_catch_def call_def log_error_def

lemma deleteBranch_local_failed:
  assumes "type branch = Local"
      and "exec w [''branch'', ''-D'', name branch] (path repository) None s = (r0, s0)"
      and "exitCode r0 \<noteq> 0"
  shows "deleteBranch w repository branch account includeRemote s
           = (Inl (GitError r0 [''branch'', ''-D'', name branch]), s0,
              [local_event repository branch r0])"
  using assms
  by (simp add: deleteBranch_def deleteLocalBranch_def io_defs git_def noOptions_def
        local_event_def Let_def split: option.split)

lemma deleteBranch_no_remote_run:
  assumes "local_done w repository branch s s0 t0"
      and "\<not> (includeRemote \<and> truthy (remote branch))"
  shows "deleteBranch w repository branch account includeRemote s = (Inr True, s0, t0)"
proof -
  have tail: "(case remote branch of None \<Rightarrow> io_return True
               | Some remoteName \<Rightarrow>
                   if includeRemote \<and> truthy (Some remoteName) then X remoteName
                   else io_return True)
              = (io_return True :: (bool, 's, 'acct) io)" for X
    using assms(2) by (auto split: option.splits)
  show ?thesis
    unfolding deleteBranch_def tail using assms(1)
    by (auto simp: local_done_def deleteLocalBranch_def io_defs git_def noOptions_def
          local_event_def Let_def split: if_splits)
qed

lemma deleteBranch_remote_run:
  assumes I: "includeRemote"
      and R: "remote branch = Some rn" "rn \<noteq> []"
      and L: "local_done w repository branch s s0 t0"
      and N: "gitNetworkArguments w repository account s0 = (no, s1)"
      and U: "getRemoteURL w repository rn s1 = (uo, s2)"
      and E: "envForRemoteOperation w account (resolved_url w account repository uo) s2 = (eo, s3)"
      and P: "exec w (push_args (projr no) rn branch) (path repository) (Some (projr eo)) s3
                = (r, s4)"
      and D: "deleteRef w repository (tracking_ref rn branch) s4 = (out, s5)"
  shows "deleteBranch w repository branch account includeRemote s =
     (case no of
        Inl e \<Rightarrow> (Inl e, s1, t0 @ [GitNetworkArguments repository account no])
      | Inr na \<Rightarrow>
          (case eo of
             Inl e \<Rightarrow>
               (Inl e, s3,
                t0 @ GitNetworkArguments repository account no # url_events repository rn uo
                  @ [EnvForRemoteOperation account (resolved_url w account repository uo) eo])
           | Inr en \<Rightarrow>
               if gitError r = Some BranchDeletionFailed
               then (case out of Inl e \<Rightarrow> Inl e | Inr u \<Rightarrow> Inr True, s5,
                     t0 @ GitNetworkArguments repository account no # url_events repository rn uo
                       @ [EnvForRemoteOperation account (resolved_url w account repository uo) eo,
                          push_event repository branch rn na en r,
                          DeleteRef repository (tracking_ref rn branch) out])
               else (if exitCode r = 0 then Inr True
                     else Inl (GitError r (push_args na rn branch)), s4,
                     t0 @ GitNetworkArguments repository account no # url_events repository rn uo
                       @ [EnvForRemoteOperation account (resolved_url w account repository uo) eo,
                          push_event repository branch rn na en r])))"
proof -
  have loc: "(if type branch = Local
          then io_bind (deleteLocalBranch w repository (name branch)) (\<lambda>_. io_return ())
          else io_return ()) s = (Inr (), s0, t0)"
    using L
    by (auto simp: local_done_def deleteLocalBranch_def io_defs git_def noOptions_def
          local_event_def Let_def split: if_splits)
  show ?thesis
  proof (cases no)
    case (Inl e)
    then show ?thesis
      unfolding deleteBranch_def
      by (simp add: io_bind_def [where m = "if type branch = Local then _ else _"] loc R I)
         (simp add: io_defs N)
  next
    case (Inr na)
    note na = this
    show ?thesis
    proof (cases eo)
      case (Inl e)
      with N U E show ?thesis
        unfolding deleteBranch_def
        by (simp add: io_bind_def [where m = "if type branch = Local then _ else _"] loc R I)
           (cases uo; simp add: io_defs na Let_def)
    next
      case (Inr en)
      with N U E P D show ?thesis
        unfolding deleteBranch_def
        by (simp add: io_bind_def [where m = "if type branch = Local then _ else _"] loc R I)
           (cases uo; cases out;
            auto simp: io_defs na Let_def git_def push_event_def push_options_def
              push_args_def tracking_ref_def split: option.splits)
    qed
  qed
qed

lemma deleteBranch_run_cases
  [case_names local_failed no_remote net_failed env_failed reconciled pushed]:
  obtains
    (local_failed) r0 s0 where
      "deleteBranch w repository branch account includeRemote s
         = (Inl (GitError r0 [''branch'', ''-D'', name branch]), s0,
            [local_event repository branch r0])"
  | (no_remote) s0 t0 where
      "local_done w repository branch s s0 t0"
      "\<not> (includeRemote \<and> truthy (remote branch))"
      "deleteBranch w repository branch account includeRemote s = (Inr True, s0, t0)"
  | (net_failed) rn s0 t0 e s1 where
      "includeRemote" "remote branch = Some rn" "rn \<noteq> []"
      "local_done w repository branch s s0 t0"
      "deleteBranch w repository branch account includeRemote s
         = (Inl e, s1, t0 @ [GitNetworkArguments repository account (Inl e)])"
  | (env_failed) rn s0 t0 na uo e s3 where
      "includeRemote" "remote branch = Some rn" "rn \<noteq> []"
      "local_done w repository branch s s0 t0"
      "deleteBranch w repository branch account includeRemote s
         = (Inl e, s3,
            t0 @ GitNetworkArguments repository account (Inr na) # url_events repository rn uo
              @ [EnvForRemoteOperation account (resolved_url w account repository uo) (Inl e)])"
  | (reconciled) rn s0 t0 na uo en r out s5 s1 s2 s3 s4 where
      "includeRemote" "remote branch = Some rn" "rn \<noteq> []"
      "local_done w repository branch s s0 t0"
      "gitError r = Some BranchDeletionFailed"
      "deleteBranch w repository branch account includeRemote s
         = (case out of Inl e \<Rightarrow> Inl e | Inr u \<Rightarrow> Inr True, s5,
            t0 @ GitNetworkArguments repository account (Inr na) # url_events repository rn uo
              @ [EnvForRemoteOperation account (resolved_url w account repository uo) (Inr en),
                 push_event repository branch rn na en r,
                 DeleteRef repository (tracking_ref rn branch) out])"
      "gitNetworkArguments w repository account s0 = (Inr na, s1)"
      "getRemoteURL w repository rn s1 = (uo, s2)"
      "envForRemoteOperation w account (resolved_url w account repository uo) s2 = (Inr en, s3)"
      "exec w (push_args na rn branch) (path repository) (Some en) s3 = (r, s4)"
      "deleteRef w repository (tracking_ref rn branch) s4 = (out, s5)"
  | (pushed) rn s0 t0 na uo en r s4 where
      "includeRemote" "remote branch = Some rn" "rn \<noteq> []"
      "local_done w repository branch s s0 t0"
      "gitError r \<noteq> Some BranchDeletionFailed"
      "deleteBranch w repository branch account includeRemote s
         = (if exitCode r = 0 then Inr True else Inl (GitError r (push_args na rn branch)), s4,
            t0 @ GitNetworkArguments repository account (Inr na) # url_events repository rn uo
              @ [EnvForRemoteOperation account (resolved_url w account repository uo) (Inr en),
                 push_event repository branch rn na en r])"
proof -
  obtain r0 sl where X: "exec w [''branch'', ''-D'', name branch] (path repository) None s = (r0, sl)"
    by (cases "exec w [''branch'', ''-D'', name branch] (path repository) None s")
  show thesis
  proof (cases "type branch = Local \<and> exitCode r0 \<noteq> 0")
    case True
    then show thesis
      using local_failed deleteBranch_local_failed [OF _ X] by blast
  next
    case False
    define s0 where "s0 = (if type branch = Local then sl else s)"
    define t0 :: "'b event list"
      where "t0 = (if type branch = Local then [local_event repository branch r0] else [])"
    have L: "local_done w repository branch s s0 t0"
      using False X by (simp add: local_done_def s0_def t0_def)
    show thesis
    proof (cases "includeRemote \<and> truthy (remote branch)")
      case False
      then show thesis
        using no_remote [OF L] deleteBranch_no_remote_run [OF L] by blast
    next
      case True
      then obtain rn where R: "remote branch = Some rn" "rn \<noteq> []"
        by (cases "remote branch") auto
      obtain no s1 where N: "gitNetworkArguments w repository account s0 = (no, s1)"
        by (cases "gitNetworkArguments w repository account s0")
      obtain uo s2 where U: "getRemoteURL w repository rn s1 = (uo, s2)"
        by (cases "getRemoteURL w repository rn s1")
      obtain eo s3 where
        E: "envForRemoteOperation w account (resolved_url w account repository uo) s2 = (eo, s3)"
        by (cases "envForRemoteOperation w account (resolved_url w account repository uo) s2")
      obtain r s4 where
        P: "exec w (push_args (projr no) rn branch) (path repository) (Some (projr eo)) s3
              = (r, s4)"
        by (cases "exec w (push_args (projr no) rn branch) (path repository) (Some (projr eo)) s3")
      obtain out s5 where D: "deleteRef w repository (tracking_ref rn branch) s4 = (out, s5)"
        by (cases "deleteRef w repository (tracking_ref rn branch) s4")
      from True have I: "includeRemote" by simp
      note run = deleteBranch_remote_run [OF I R L N U E P D]
      show thesis
      proof (cases no)
        case (Inl e)
        with run show thesis
          by (intro net_failed [OF I R L]) simp
      next
        case na: (Inr na)
        show thesis
        proof (cases eo)
          case (Inl e)
          with run na show thesis
            by (intro env_failed [OF I R L]) simp
        next
          case en: (Inr en)
          show thesis
          proof (cases "gitError r = Some BranchDeletionFailed")
            case True
            from N na have N': "gitNetworkArguments w repository account s0 = (Inr na, s1)"
              by simp
            from E en have
              E': "envForRemoteOperation w account (resolved_url w account repository uo) s2
                     = (Inr en, s3)"
              by simp
            from P na en have
              P': "exec w (push_args na rn branch) (path repository) (Some en) s3 = (r, s4)"
              by simp
            from run na en True have
              "deleteBranch w repository branch account includeRemote s
                 = (case out of Inl e \<Rightarrow> Inl e | Inr u \<Rightarrow> Inr True, s5,
                    t0 @ GitNetworkArguments repository account (Inr na)
                      # url_events repository rn uo
                      @ [EnvForRemoteOperation account (resolved_url w account repository uo)
                           (Inr en),
                         push_event repository branch rn na en r,
                         DeleteRef repository (tracking_ref rn branch) out])"
              by simp
            then show thesis
              by (rule reconciled [OF I R L True _ N' U E' P' D])
          next
            case False
            with run na en show thesis
              by (intro pushed [OF I R L False]) simp
          qed
        qed
      qed
    qed
  qed
qed

lemma no_push_in_local:
  "local_done w repository branch s s0 t0 \<Longrightarrow>
   Exec args dir ''deleteRemoteBranch'' opts r \<notin> set t0"
  by (auto simp: local_done_def local_event_def split: if_splits)

lemma no_deleteRef_in_local:
  "local_done w repository branch s s0 t0 \<Longrightarrow> list_all (\<lambda>e. \<not> is_DeleteRef e) t0"
  by (auto simp: local_done_def local_event_def split: if_splits)

lemma no_push_in_url_events:
  "Exec args dir label opts r \<notin> set (url_events repository rn uo)"
  by (cases uo) auto

lemma no_deleteRef_in_url_events:
  "list_all (\<lambda>e. \<not> is_DeleteRef e) (url_events repository rn uo)"
  by (cases uo) auto



lemmas fixture_defs = fixed_world_def git_output_def succeeded_def already_gone_def
  auth_failed_def two_line_listing_def malformed_listing_def ref_world_def repo0_def
  feature_branch_def remote_branch_def

lemmas run_defs = result_of_def trace_of_def deleteBranch_def deleteLocalBranch_def io_defs
  git_def noOptions_def push_options_def Let_def

subsection \<open>Deleting a branch together with its remote counterpart\<close>

text \<open>
  Claim C1, amended. Whenever \<^verbatim>\<open>deleteBranch\<close>, called with \<open>includeRemote = true\<close> on
  a branch whose remote is \<open>remoteName\<close>, runs the push and the push fails with the
  classification \<^verbatim>\<open>BranchDeletionFailed\<close>, the run is this one: the local deletion, if
  any, is over without an error; network arguments, URL and environment are resolved;
  the push is executed in the state \<open>s3\<close> they leave and leaves the state \<open>s4\<close>; then
  \<^verbatim>\<open>deleteRef\<close> is called on \<^verbatim>\<open>refs/remotes/<remoteName>/<nameWithoutRemote>\<close> in
  \<open>s4\<close> as the last step. The state after the run is the one that call leaves, and the
  promise resolves to \<open>true\<close> provided that call returns; if \<^verbatim>\<open>deleteRef\<close> itself
  fails, its error is the result.
\<close>

theorem deleteBranch_reconciles_tracking_ref:
  fixes w :: "('s, 'acct) world"
  assumes "remote branch = Some remoteName"
      and "Exec args dir ''deleteRemoteBranch'' opts r
             \<in> set (trace_of (deleteBranch w repository branch account True) s)"
      and "exitCode r \<noteq> 0"
      and "gitError r = Some BranchDeletionFailed"
  shows "\<exists>s0 t0 networkArguments s1 url s2 environment s3 s4.
           local_done w repository branch s s0 t0
         \<and> gitNetworkArguments w repository account s0 = (Inr networkArguments, s1)
         \<and> getRemoteURL w repository remoteName s1 = (url, s2)
         \<and> envForRemoteOperation w account (resolved_url w account repository url) s2
             = (Inr environment, s3)
         \<and> args = networkArguments @ [''push'', remoteName, '':'' @ nameWithoutRemote branch]
         \<and> dir = path repository
         \<and> opts = \<lparr>env = Some environment, successExitCodes = None,
                    expectedErrors = Some {BranchDeletionFailed}\<rparr>
         \<and> exec w args dir (Some environment) s3 = (r, s4)
         \<and> deleteBranch w repository branch account True s
             = (case fst (deleteRef w repository
                            (''refs/remotes/'' @ remoteName @ ''/'' @ nameWithoutRemote branch) s4)
                of Inl e \<Rightarrow> Inl e | Inr u \<Rightarrow> Inr True,
                snd (deleteRef w repository
                       (''refs/remotes/'' @ remoteName @ ''/'' @ nameWithoutRemote branch) s4),
                t0 @ GitNetworkArguments repository account (Inr networkArguments)
                  # url_events repository remoteName url
                  @ [EnvForRemoteOperation account (resolved_url w account repository url)
                       (Inr environment),
                     Exec args dir ''deleteRemoteBranch'' opts r,
                     DeleteRef repository
                       (''refs/remotes/'' @ remoteName @ ''/'' @ nameWithoutRemote branch)
                       (fst (deleteRef w repository
                               (''refs/remotes/'' @ remoteName @ ''/''
                                  @ nameWithoutRemote branch) s4))])"
proof (cases rule: deleteBranch_run_cases [of w repository branch account True s])
  case (local_failed r0 s0)
  with assms(2) show ?thesis
    by (simp add: trace_of_def local_event_def)
next
  case (no_remote s0 t0)
  with assms(2) no_push_in_local [OF no_remote(1)] show ?thesis
    by (simp add: trace_of_def)
next
  case (net_failed rn s0 t0 e s1)
  with assms(2) no_push_in_local [OF net_failed(4)] show ?thesis
    by (simp add: trace_of_def)
next
  case (env_failed rn s0 t0 na uo e s3)
  with assms(2) no_push_in_local [OF env_failed(4)] show ?thesis
    by (simp add: trace_of_def no_push_in_url_events)
next
  case (reconciled rn s0 t0 na uo en r' out s5 s1 s2 s3 s4)
  from assms(1) reconciled(2) have rn: "rn = remoteName"
    by simp
  from assms(2) reconciled(6) no_push_in_local [OF reconciled(4)]
  have "(Exec args dir ''deleteRemoteBranch'' opts r :: 'acct event)
          = push_event repository branch rn na en r'"
    by (auto simp: trace_of_def no_push_in_url_events)
  then have ev: "args = na @ [''push'', remoteName, '':'' @ nameWithoutRemote branch]"
    "dir = path repository"
    "opts = \<lparr>env = Some en, successExitCodes = None,
              expectedErrors = Some {BranchDeletionFailed}\<rparr>"
    "r' = r"
    by (simp_all add: push_event_def push_args_def push_options_def rn)
  from reconciled(10) ev rn have P: "exec w args dir (Some en) s3 = (r, s4)"
    by (simp add: push_args_def)
  from reconciled(11) rn
  have D: "deleteRef w repository
             (''refs/remotes/'' @ remoteName @ ''/'' @ nameWithoutRemote branch) s4 = (out, s5)"
    by (simp add: tracking_ref_def)
  from reconciled(6) ev rn D
  have run: "deleteBranch w repository branch account True s
             = (case fst (deleteRef w repository
                            (''refs/remotes/'' @ remoteName @ ''/'' @ nameWithoutRemote branch) s4)
                of Inl e \<Rightarrow> Inl e | Inr u \<Rightarrow> Inr True,
                snd (deleteRef w repository
                       (''refs/remotes/'' @ remoteName @ ''/'' @ nameWithoutRemote branch) s4),
                t0 @ GitNetworkArguments repository account (Inr na)
                  # url_events repository remoteName uo
                  @ [EnvForRemoteOperation account (resolved_url w account repository uo) (Inr en),
                     Exec args dir ''deleteRemoteBranch'' opts r,
                     DeleteRef repository
                       (''refs/remotes/'' @ remoteName @ ''/'' @ nameWithoutRemote branch)
                       (fst (deleteRef w repository
                               (''refs/remotes/'' @ remoteName @ ''/''
                                  @ nameWithoutRemote branch) s4))])"
    by (simp add: push_event_def push_args_def push_options_def tracking_ref_def)
  from reconciled(4) reconciled(7) reconciled(8) [unfolded rn] reconciled(9) ev(1-3) P run
  show ?thesis
    by blast
next
  case (pushed rn s0 t0 na uo en r' s4)
  with assms no_push_in_local [OF pushed(4)] show ?thesis
    by (auto simp: trace_of_def no_push_in_url_events push_event_def)
qed

theorem deleteBranch_reconciles_tracking_ref_witness:
  "remote feature_branch = Some ''origin''
   \<and> Exec [''-c'', ''credential.helper='', ''push'', ''origin'', '':feature''] ''/work/repo''
       ''deleteRemoteBranch'' (push_options [(''REMOTE_URL'', ''https://example.com/repo.git'')])
       already_gone
     \<in> set (trace_of (deleteBranch ref_world repo0 feature_branch None True)
            [''refs/heads/feature'', ''refs/remotes/origin/feature'', ''refs/heads/main''])
   \<and> exitCode already_gone \<noteq> 0
   \<and> gitError already_gone = Some BranchDeletionFailed
   \<and> result_of (deleteBranch ref_world repo0 feature_branch None True)
         [''refs/heads/feature'', ''refs/remotes/origin/feature'', ''refs/heads/main'']
       = Inr True
   \<and> state_of (deleteBranch ref_world repo0 feature_branch None True)
         [''refs/heads/feature'', ''refs/remotes/origin/feature'', ''refs/heads/main'']
       = [''refs/heads/main'']
   \<and> last (trace_of (deleteBranch ref_world repo0 feature_branch None True)
         [''refs/heads/feature'', ''refs/remotes/origin/feature'', ''refs/heads/main''])
       = DeleteRef repo0 ''refs/remotes/origin/feature'' (Inr ())"
proof -
  let ?refs = "[''refs/heads/feature'', ''refs/remotes/origin/feature'', ''refs/heads/main'']"
  let ?run = "deleteBranch ref_world repo0 feature_branch None True"
  have rm: "remote feature_branch = Some ''origin''"
    by (simp add: fixture_defs)
  have ev: "Exec [''-c'', ''credential.helper='', ''push'', ''origin'', '':feature''] ''/work/repo''
     ''deleteRemoteBranch'' (push_options [(''REMOTE_URL'', ''https://example.com/repo.git'')])
     already_gone
     \<in> set (trace_of ?run ?refs)"
    by (simp add: run_defs fixture_defs)
  have ex: "exitCode already_gone \<noteq> 0"
    by (simp add: fixture_defs)
  have ge: "gitError already_gone = Some BranchDeletionFailed"
    by (simp add: fixture_defs)
  have returns: "fst (deleteRef ref_world repository ref refs) = Inr ()" for repository ref refs
    by (simp add: ref_world_def)
  note reconciled = deleteBranch_reconciles_tracking_ref [OF rm ev ex ge]
  from reconciled have res: "result_of ?run ?refs = Inr True"
    by (elim exE conjE) (simp add: result_of_def returns)
  from reconciled have lst: "last (trace_of ?run ?refs)
       = DeleteRef repo0 ''refs/remotes/origin/feature'' (Inr ())"
    by (elim exE conjE) (simp add: trace_of_def returns feature_branch_def)
  have st: "state_of ?run ?refs = [''refs/heads/main'']"
    by (simp add: state_of_def deleteBranch_def deleteLocalBranch_def io_defs git_def
          noOptions_def Let_def fixture_defs)
  from rm ev ex ge res st lst show ?thesis
    by simp
qed

text \<open>
  The claim as first stated promises success whenever the push fails that way. It fails
  where \<^verbatim>\<open>deleteRef\<close> itself is rejected: the call is not guarded, and the promise of
  \<^verbatim>\<open>deleteBranch\<close> is rejected with the same error.
\<close>

theorem deleteBranch_reconciles_tracking_ref_counterexample:
  "remote feature_branch = Some ''origin''
   \<and> Exec [''-c'', ''credential.helper='', ''push'', ''origin'', '':feature''] ''/work/repo''
       ''deleteRemoteBranch'' (push_options [(''REMOTE_URL'', ''https://example.com/repo.git'')])
       already_gone
     \<in> set (trace_of
          (deleteBranch
             (fixed_world already_gone succeeded (Inr (Some ''https://example.com/repo.git''))
                (Inl (CollaboratorError ''locked'')))
             repo0 feature_branch None True) ())
   \<and> exitCode already_gone \<noteq> 0
   \<and> gitError already_gone = Some BranchDeletionFailed
   \<and> result_of
         (deleteBranch
            (fixed_world already_gone succeeded (Inr (Some ''https://example.com/repo.git''))
               (Inl (CollaboratorError ''locked'')))
            repo0 feature_branch None True) ()
       = Inl (CollaboratorError ''locked'')
   \<and> result_of
         (deleteBranch
            (fixed_world already_gone succeeded (Inr (Some ''https://example.com/repo.git''))
               (Inl (CollaboratorError ''locked'')))
            repo0 feature_branch None True) ()
       \<noteq> Inr True"
  by (simp add: run_defs fixture_defs)

text \<open>
  Claim C2. Whenever the push of \<^verbatim>\<open>deleteBranch\<close> (\<open>includeRemote = true\<close>) ends with
  an exit code other than 0 and a classification other than \<^verbatim>\<open>BranchDeletionFailed\<close>
  (none at all, or an authentication failure, say), the promise is rejected with the
  gateway's error for exactly that result and those arguments, and the run contains no
  call of \<^verbatim>\<open>deleteRef\<close>.
\<close>

theorem deleteBranch_push_failure_propagates:
  assumes "Exec args dir ''deleteRemoteBranch'' opts r
             \<in> set (trace_of (deleteBranch w repository branch account True) s)"
      and "exitCode r \<noteq> 0"
      and "gitError r \<noteq> Some BranchDeletionFailed"
  shows "result_of (deleteBranch w repository branch account True) s = Inl (GitError r args)
       \<and> list_all (\<lambda>e. \<not> is_DeleteRef e)
            (trace_of (deleteBranch w repository branch account True) s)"
proof (cases rule: deleteBranch_run_cases [of w repository branch account True s])
  case (local_failed r0 s0)
  with assms(1) show ?thesis
    by (simp add: trace_of_def local_event_def)
next
  case (no_remote s0 t0)
  with assms(1) no_push_in_local [OF no_remote(1)] show ?thesis
    by (simp add: trace_of_def)
next
  case (net_failed rn s0 t0 e s1)
  with assms(1) no_push_in_local [OF net_failed(4)] show ?thesis
    by (simp add: trace_of_def)
next
  case (env_failed rn s0 t0 na uo e s3)
  with assms(1) no_push_in_local [OF env_failed(4)] show ?thesis
    by (simp add: trace_of_def no_push_in_url_events)
next
  case (reconciled rn s0 t0 na uo en r' out s5)
  with assms no_push_in_local [OF reconciled(4)] show ?thesis
    by (auto simp: trace_of_def no_push_in_url_events push_event_def)
next
  case (pushed rn s0 t0 na uo en r' s4)
  with assms no_push_in_local [OF pushed(4)] no_deleteRef_in_local [OF pushed(4)]
  show ?thesis
    by (auto simp: trace_of_def result_of_def no_push_in_url_events no_deleteRef_in_url_events
          push_event_def)
qed

theorem deleteBranch_push_failure_propagates_witness:
  "Exec [''-c'', ''credential.helper='', ''push'', ''origin'', '':feature''] ''/work/repo''
     ''deleteRemoteBranch'' (push_options [(''REMOTE_URL'', ''https://example.com/repo.git'')])
     auth_failed
     \<in> set (trace_of
          (deleteBranch
             (fixed_world auth_failed succeeded (Inr (Some ''https://example.com/repo.git''))
                (Inr ()))
             repo0 feature_branch None True) ())
   \<and> exitCode auth_failed \<noteq> 0
   \<and> gitError auth_failed \<noteq> Some BranchDeletionFailed
   \<and> result_of
       (deleteBranch
          (fixed_world auth_failed succeeded (Inr (Some ''https://example.com/repo.git''))
             (Inr ()))
          repo0 feature_branch None True) ()
     = Inl (GitError auth_failed
          [''-c'', ''credential.helper='', ''push'', ''origin'', '':feature''])
   \<and> list_all (\<lambda>e. \<not> is_DeleteRef e)
       (trace_of
          (deleteBranch
             (fixed_world auth_failed succeeded (Inr (Some ''https://example.com/repo.git''))
                (Inr ()))
             repo0 feature_branch None True) ())"
proof -
  let ?w = "fixed_world auth_failed succeeded (Inr (Some ''https://example.com/repo.git''))
              (Inr ()) :: (unit, string) world"
  have ev: "Exec [''-c'', ''credential.helper='', ''push'', ''origin'', '':feature''] ''/work/repo''
     ''deleteRemoteBranch'' (push_options [(''REMOTE_URL'', ''https://example.com/repo.git'')])
     auth_failed
     \<in> set (trace_of (deleteBranch ?w repo0 feature_branch None True) ())"
    by (simp add: run_defs fixture_defs)
  have ex: "exitCode auth_failed \<noteq> 0" by (simp add: fixture_defs)
  have ge: "gitError auth_failed \<noteq> Some BranchDeletionFailed" by (simp add: fixture_defs)
  from deleteBranch_push_failure_propagates [OF ev ex ge] ev ex ge show ?thesis
    by simp
qed



text \<open>
  Claim C10. When \<open>includeRemote\<close> is false or the branch has no remote, the run of
  \<^verbatim>\<open>deleteBranch\<close> resolves no network arguments, executes no push and calls no
  \<^verbatim>\<open>deleteRef\<close>: its only event is the local deletion, and that only for a branch of
  type \<open>Local\<close>. For a branch of another type nothing is called at all, the state of
  the world is unchanged and the promise resolves to \<open>true\<close>.
\<close>

theorem deleteBranch_local_only:
  fixes w :: "('s, 'acct) world"
  assumes "\<not> includeRemote \<or> remote branch = None"
  shows "list_all (\<lambda>e. \<not> is_GitNetworkArguments e \<and> \<not> is_push e \<and> \<not> is_DeleteRef e)
            (trace_of (deleteBranch w repository branch account includeRemote) s)
       \<and> trace_of (deleteBranch w repository branch account includeRemote) s
           = (if type branch = Local
              then [Exec [''branch'', ''-D'', name branch] (path repository) ''deleteLocalBranch''
                      noOptions
                      (fst (exec w [''branch'', ''-D'', name branch] (path repository) None s))]
              else [])
       \<and> (type branch \<noteq> Local \<longrightarrow>
            deleteBranch w repository branch account includeRemote s = (Inr True, s, []))"
proof -
  obtain r0 sl where
    X: "exec w [''branch'', ''-D'', name branch] (path repository) None s = (r0, sl)"
    by (cases "exec w [''branch'', ''-D'', name branch] (path repository) None s")
  from assms have N: "\<not> (includeRemote \<and> truthy (remote branch))"
    by auto
  show ?thesis
  proof (cases "type branch = Local")
    case False
    then have "local_done w repository branch s s ([] :: 'acct event list)"
      by (simp add: local_done_def)
    from deleteBranch_no_remote_run [OF this N] False show ?thesis
      by (simp add: trace_of_def)
  next
    case True
    show ?thesis
    proof (cases "exitCode r0 = 0")
      case False
      from deleteBranch_local_failed [OF True X False] True X show ?thesis
        by (simp add: trace_of_def local_event_def)
    next
      case ok: True
      with True X
      have "local_done w repository branch s sl ([local_event repository branch r0] :: 'acct event list)"
        by (simp add: local_done_def)
      from deleteBranch_no_remote_run [OF this N] True X show ?thesis
        by (simp add: trace_of_def local_event_def)
    qed
  qed
qed

theorem deleteBranch_local_only_witness:
  "type remote_branch \<noteq> Local
   \<and> deleteBranch (fixed_world auth_failed auth_failed (Inl (CollaboratorError ''offline''))
          (Inl (CollaboratorError ''locked''))) repo0 remote_branch None False ()
       = (Inr True, (), [])
   \<and> remote (feature_branch\<lparr>remote := None\<rparr>) = None
   \<and> trace_of (deleteBranch (fixed_world already_gone succeeded (Inr None) (Inr ()))
         repo0 (feature_branch\<lparr>remote := None\<rparr>) None True) ()
       = [Exec [''branch'', ''-D'', ''feature''] ''/work/repo'' ''deleteLocalBranch'' noOptions
            succeeded]"
proof -
  have a: "\<not> False \<or> remote remote_branch = None" by simp
  have b: "\<not> True \<or> remote (feature_branch\<lparr>remote := None\<rparr>) = None" by simp
  have t: "type remote_branch \<noteq> Local" "type feature_branch = Local"
    by (simp_all add: fixture_defs)
  from deleteBranch_local_only [OF a, of "fixed_world auth_failed auth_failed
         (Inl (CollaboratorError ''offline'')) (Inl (CollaboratorError ''locked''))" repo0 None "()"]
       deleteBranch_local_only [OF b, of "fixed_world already_gone succeeded (Inr None) (Inr ())"
         repo0 None "()"] t
  show ?thesis
    by (simp add: fixture_defs)
qed

subsection \<open>Creating a branch\<close>

text \<open>
  Claim C5. When the start point begins with \<^verbatim>\<open>remotes/\<close>, the argument list of the
  creation command is \<^verbatim>\<open>branch <name> <startPoint> --no-track\<close>, and that list is what
  the first call of \<^verbatim>\<open>createBranch\<close> hands to the gateway. (What \<^verbatim>\<open>git\<close> does
  with the flag lies behind the gateway.)
\<close>

theorem createBranch_no_track:
  assumes "prefix ''remotes/'' startPoint"
  shows "createBranch_args branchName (Some startPoint)
           = [''branch'', branchName, startPoint, ''--no-track'']
       \<and> (\<exists>rest. trace_of (createBranch w repository branchName (Some startPoint)) s
             = Exec [''branch'', branchName, startPoint, ''--no-track''] (path repository)
                 ''createBranch'' noOptions
                 (fst (exec w [''branch'', branchName, startPoint, ''--no-track'']
                         (path repository) None s)) # rest)"
  using assms
  by (auto simp: createBranch_def createBranch_args_def trace_of_def io_defs git_def
        noOptions_def Let_def split: prod.splits sum.splits list.splits)

theorem createBranch_no_track_witness:
  "prefix ''remotes/'' ''remotes/origin/main''
   \<and> createBranch_args ''topic'' (Some ''remotes/origin/main'')
       = [''branch'', ''topic'', ''remotes/origin/main'', ''--no-track'']
   \<and> hd (trace_of
          (createBranch (fixed_world succeeded succeeded (Inr None) (Inr ())) repo0 ''topic''
             (Some ''remotes/origin/main'')) ())
       = Exec [''branch'', ''topic'', ''remotes/origin/main'', ''--no-track''] ''/work/repo''
           ''createBranch'' noOptions succeeded"
proof -
  have p: "prefix ''remotes/'' ''remotes/origin/main''"
    by simp
  from createBranch_no_track [OF p, of "''topic''"
         "fixed_world succeeded succeeded (Inr None) (Inr ())" repo0 "()"] p
  show ?thesis
    by (auto simp: fixture_defs)
qed

subsection \<open>Branches that point at a commit\<close>

lemma getBranchesPointedAt_run:
  assumes "exec w (pointedAt_args commitish) (path repository) None s = (r, s1)"
  shows "result_of (getBranchesPointedAt w repository commitish) s
           = (if exitCode r = 1 \<or> exitCode r = 129 then Inr None
              else if exitCode r = 0 then Inr (Some (butlast (split_js LF (stdout r))))
              else Inl (GitError r (pointedAt_args commitish)))"
  using assms
  by (simp add: getBranchesPointedAt_def result_of_def io_defs git_def Let_def
        split: option.splits)

text \<open>
  Claim C3. For the result \<open>r\<close> of the listing command: exit code 1 or 129 makes
  \<^verbatim>\<open>getBranchesPointedAt\<close> resolve to \<^verbatim>\<open>null\<close>, which is not the empty array; exit
  code 0 makes it resolve to an array of names, the segments of the standard output but
  the last; any other exit code rejects the promise with the gateway's error for \<open>r\<close>.
\<close>

theorem getBranchesPointedAt_exit_codes:
  assumes "exec w (pointedAt_args commitish) (path repository) None s = (r, s1)"
  shows "(exitCode r = 1 \<or> exitCode r = 129 \<longrightarrow>
            result_of (getBranchesPointedAt w repository commitish) s = Inr None)
       \<and> (exitCode r = 0 \<longrightarrow>
            result_of (getBranchesPointedAt w repository commitish) s
              = Inr (Some (butlast (split_js LF (stdout r)))))
       \<and> (exitCode r \<notin> {0, 1, 129} \<longrightarrow>
            result_of (getBranchesPointedAt w repository commitish) s
              = Inl (GitError r (pointedAt_args commitish)))
       \<and> (Inr None :: error + string list option) \<noteq> Inr (Some [])"
  by (simp add: getBranchesPointedAt_run [OF assms])

theorem getBranchesPointedAt_exit_codes_witness:
  "result_of (getBranchesPointedAt
       (fixed_world succeeded (git_output 129 [] None) (Inr None) (Inr ())) repo0 ''HEAD'') ()
     = Inr None
   \<and> result_of (getBranchesPointedAt
       (fixed_world succeeded (git_output 0 (''main'' @ LF # ''dev'' @ [LF]) None) (Inr None)
          (Inr ())) repo0 ''HEAD'') ()
     = Inr (Some [''main'', ''dev''])
   \<and> result_of (getBranchesPointedAt
       (fixed_world succeeded (git_output 2 [] None) (Inr None) (Inr ())) repo0 ''HEAD'') ()
     = Inl (GitError (git_output 2 [] None)
         [''branch'', ''--points-at=HEAD'', ''--format=%(refname:short)''])"
proof -
  have a: "exec (fixed_world succeeded (git_output 129 [] None) (Inr None) (Inr ()))
             (pointedAt_args ''HEAD'') (path repo0) None () = (git_output 129 [] None, ())"
    by (simp add: fixture_defs pointedAt_args_def)
  have b: "exec (fixed_world succeeded (git_output 0 (''main'' @ LF # ''dev'' @ [LF]) None)
                   (Inr None) (Inr ()))
             (pointedAt_args ''HEAD'') (path repo0) None ()
           = (git_output 0 (''main'' @ LF # ''dev'' @ [LF]) None, ())"
    by (simp add: fixture_defs pointedAt_args_def)
  have c: "exec (fixed_world succeeded (git_output 2 [] None) (Inr None) (Inr ()))
             (pointedAt_args ''HEAD'') (path repo0) None () = (git_output 2 [] None, ())"
    by (simp add: fixture_defs pointedAt_args_def)
  from getBranchesPointedAt_exit_codes [OF a] getBranchesPointedAt_exit_codes [OF b]
    getBranchesPointedAt_exit_codes [OF c]
  show ?thesis
    by (simp add: git_output_def pointedAt_args_def LF_def)
qed

text \<open>
  Claim C9. On exit code 0 the array is the newline-split of the standard output
  without its final segment, whatever that segment is: an empty output and an output of
  one line without a newline both give the empty array, and in general the text after
  the last newline is dropped, whether it is empty (the usual terminator) or a last line
  that was not terminated.
\<close>

theorem getBranchesPointedAt_drops_last_segment:
  assumes "exec w (pointedAt_args commitish) (path repository) None s = (r, s1)"
      and "exitCode r = 0"
  shows "result_of (getBranchesPointedAt w repository commitish) s
           = Inr (Some (butlast (split_js LF (stdout r))))
       \<and> (stdout r = [] \<longrightarrow>
            result_of (getBranchesPointedAt w repository commitish) s = Inr (Some []))
       \<and> (LF \<notin> set (stdout r) \<longrightarrow>
            result_of (getBranchesPointedAt w repository commitish) s = Inr (Some []))
       \<and> (\<forall>a seg. stdout r = a @ LF # seg \<and> LF \<notin> set seg \<longrightarrow>
            result_of (getBranchesPointedAt w repository commitish) s
              = Inr (Some (split_js LF a)))"
  using assms(2)
  by (auto simp: getBranchesPointedAt_run [OF assms(1)] split_js_no_sep split_js_terminated)

theorem getBranchesPointedAt_drops_last_segment_witness:
  "exitCode (git_output 0 (''main'' @ LF # ''dev'') None) = 0
   \<and> result_of (getBranchesPointedAt
       (fixed_world succeeded (git_output 0 (''main'' @ LF # ''dev'') None) (Inr None) (Inr ()))
       repo0 ''HEAD'') ()
     = Inr (Some [''main''])
   \<and> result_of (getBranchesPointedAt
       (fixed_world succeeded (git_output 0 ''main'' None) (Inr None) (Inr ()))
       repo0 ''HEAD'') ()
     = Inr (Some [])"
proof -
  have a: "exec (fixed_world succeeded (git_output 0 (''main'' @ LF # ''dev'') None) (Inr None)
                   (Inr ()))
             (pointedAt_args ''HEAD'') (path repo0) None ()
           = (git_output 0 (''main'' @ LF # ''dev'') None, ())"
    by (simp add: fixture_defs pointedAt_args_def)
  have b: "exec (fixed_world succeeded (git_output 0 ''main'' None) (Inr None) (Inr ()))
             (pointedAt_args ''HEAD'') (path repo0) None () = (git_output 0 ''main'' None, ())"
    by (simp add: fixture_defs pointedAt_args_def)
  have z: "exitCode (git_output 0 (''main'' @ LF # ''dev'') None) = 0"
    "exitCode (git_output 0 ''main'' None) = 0"
    by (simp_all add: git_output_def)
  from getBranchesPointedAt_drops_last_segment [OF a z(1)]
    getBranchesPointedAt_drops_last_segment [OF b z(2)] z
  show ?thesis
    by (simp add: git_output_def LF_def)
qed

subsection \<open>Branches merged into a branch\<close>

lemma mergedBranches_loop_excludes:
  "m ref = None \<Longrightarrow> mergedBranches_loop ref lines m ref = None"
  by (induction lines arbitrary: m) (auto simp: Let_def split: option.splits)

lemma getMergedBranches_run:
  assumes "exec w (mergedBranches_args branchName) (path repository) None s = (r, s1)"
  shows "result_of (getMergedBranches w repository branchName) s
           = (if exitCode r = 0
              then Inr (mergedBranches_loop (formatAsLocalRef w branchName)
                          (butlast (split_js LF (stdout r))) Map.empty)
              else Inl (GitError r (mergedBranches_args branchName)))"
  using assms
  by (simp add: getMergedBranches_def result_of_def io_defs git_def noOptions_def Let_def
        split: option.splits)

text \<open>
  Claim C4. A map returned by \<^verbatim>\<open>getMergedBranches\<close> for \<open>branchName\<close> has no entry
  under the canonical ref that \<^verbatim>\<open>formatAsLocalRef\<close> gives for \<open>branchName\<close>; where
  that helper gives \<^verbatim>\<open>refs/heads/<branchName>\<close>, it has no entry under that key.
\<close>

theorem getMergedBranches_excludes_base:
  assumes "result_of (getMergedBranches w repository branchName) s = Inr mergedBranches"
  shows "mergedBranches (formatAsLocalRef w branchName) = None
       \<and> (formatAsLocalRef w branchName = ''refs/heads/'' @ branchName \<longrightarrow>
            mergedBranches (''refs/heads/'' @ branchName) = None)"
proof -
  obtain r s1 where
    X: "exec w (mergedBranches_args branchName) (path repository) None s = (r, s1)"
    by (cases "exec w (mergedBranches_args branchName) (path repository) None s")
  from assms have "mergedBranches = mergedBranches_loop (formatAsLocalRef w branchName)
                          (butlast (split_js LF (stdout r))) Map.empty"
    by (simp add: getMergedBranches_run [OF X] split: if_splits)
  then have "mergedBranches (formatAsLocalRef w branchName) = None"
    by (simp add: mergedBranches_loop_excludes)
  then show ?thesis by auto
qed

theorem getMergedBranches_excludes_base_witness:
  "result_of (getMergedBranches (fixed_world succeeded two_line_listing (Inr None) (Inr ()))
       repo0 ''x'') ()
     = Inr [''refs/heads/y'' \<mapsto> ''4c5b6a'']
   \<and> [''refs/heads/y'' \<mapsto> ''4c5b6a''] (''refs/heads/'' @ ''x'') = None"
proof -
  have run: "result_of (getMergedBranches
                 (fixed_world succeeded two_line_listing (Inr None) (Inr ())) repo0 ''x'') ()
               = Inr [''refs/heads/y'' \<mapsto> ''4c5b6a'']"
    by (simp add: getMergedBranches_def mergedBranches_args_def result_of_def io_defs git_def
          noOptions_def fixture_defs Let_def NUL_def LF_def)
  from getMergedBranches_excludes_base [OF run] run show ?thesis
    by (simp add: fixture_defs)
qed

lemma mergedBranches_loop_append:
  "mergedBranches_loop ref (xs @ ys) m = mergedBranches_loop ref ys (mergedBranches_loop ref xs m)"
  by (induction xs arbitrary: m) (auto simp: Let_def split: option.splits)

lemma mergedBranches_loop_skip:
  assumes "element (split_js NUL line) 0 = None \<or> element (split_js NUL line) 1 = None"
  shows "mergedBranches_loop ref (before @ line # after) m
           = mergedBranches_loop ref (before @ after) m"
  using assms by (auto simp: mergedBranches_loop_append Let_def split: option.splits)

lemma element_None_iff: "element xs i = None \<longleftrightarrow> length xs \<le> i"
proof (induction xs arbitrary: i)
  case Nil
  then show ?case by simp
next
  case (Cons x xs)
  then show ?case by (cases i) simp_all
qed

lemma split_js_single_iff: "length (split_js sep s) \<le> 1 \<longleftrightarrow> sep \<notin> set s"
proof
  assume short: "length (split_js sep s) \<le> 1"
  show "sep \<notin> set s"
  proof
    assume "sep \<in> set s"
    then obtain a b where "s = a @ sep # b"
      by (auto dest: split_list)
    then have "length (split_js sep s) = length (split_js sep a) + length (split_js sep b)"
      by (simp add: split_js_append)
    moreover have "length (split_js sep a) \<ge> 1" "length (split_js sep b) \<ge> 1"
      using split_js_nonempty [of sep a] split_js_nonempty [of sep b]
      by (simp_all add: Suc_le_eq)
    ultimately show False using short by simp
  qed
next
  assume "sep \<notin> set s"
  then show "length (split_js sep s) \<le> 1"
    by (simp add: split_js_no_sep)
qed

lemma missing_field_iff:
  "(element (split_js NUL line) 0 = None \<or> element (split_js NUL line) 1 = None)
     \<longleftrightarrow> NUL \<notin> set line"
  using split_js_nonempty [of NUL line] split_js_single_iff [of NUL line]
  by (simp add: element_None_iff)

text \<open>
  Claim C7. A line of the listing for which the split on NUL leaves the first or the
  second field undefined (a line without NUL) changes nothing: the command having
  succeeded, \<^verbatim>\<open>getMergedBranches\<close> resolves to the map built from the lines before
  and after it alone.
\<close>

theorem getMergedBranches_skips_malformed_line:
  assumes "exec w (mergedBranches_args branchName) (path repository) None s = (r, s1)"
      and "exitCode r = 0"
      and "butlast (split_js LF (stdout r)) = before @ line # after"
      and "element (split_js NUL line) 0 = None \<or> element (split_js NUL line) 1 = None"
  shows "result_of (getMergedBranches w repository branchName) s
           = Inr (mergedBranches_loop (formatAsLocalRef w branchName) (before @ after) Map.empty)"
  using assms(2,3)
  by (simp add: getMergedBranches_run [OF assms(1)] mergedBranches_loop_skip [OF assms(4)])

theorem getMergedBranches_skips_malformed_line_witness:
  "butlast (split_js LF (stdout malformed_listing))
     = [''1f2e3d'' @ NUL # ''refs/heads/x''] @ ''warning'' # [''4c5b6a'' @ NUL # ''refs/heads/y'']
   \<and> element (split_js NUL ''warning'') 1 = None
   \<and> result_of (getMergedBranches (fixed_world succeeded malformed_listing (Inr None) (Inr ()))
         repo0 ''main'') ()
       = Inr [''refs/heads/x'' \<mapsto> ''1f2e3d'', ''refs/heads/y'' \<mapsto> ''4c5b6a'']"
proof -
  let ?w = "fixed_world succeeded malformed_listing (Inr None) (Inr ()) :: (unit, string) world"
  have x: "exec ?w (mergedBranches_args ''main'') (path repo0) None () = (malformed_listing, ())"
    by (simp add: fixture_defs mergedBranches_args_def)
  have z: "exitCode malformed_listing = 0"
    by (simp add: fixture_defs)
  have lines: "butlast (split_js LF (stdout malformed_listing))
     = [''1f2e3d'' @ NUL # ''refs/heads/x''] @ ''warning'' # [''4c5b6a'' @ NUL # ''refs/heads/y'']"
    by (simp add: fixture_defs NUL_def LF_def)
  have bad: "element (split_js NUL ''warning'') 1 = None"
    by (simp add: NUL_def)
  then have bad': "element (split_js NUL ''warning'') 0 = None
      \<or> element (split_js NUL ''warning'') 1 = None"
    by simp
  from getMergedBranches_skips_malformed_line [OF x z lines bad'] lines bad show ?thesis
    by (simp add: fixture_defs NUL_def LF_def)
qed

lemma line_fields:
  "NUL \<notin> set sha \<Longrightarrow> NUL \<notin> set ref
   \<Longrightarrow> split_js NUL (sha @ NUL # ref) = [sha, ref]"
  by (simp add: split_js_append split_js_no_sep)

text \<open>
  Claim C6, amended. When the listing succeeds with exactly
  \<open>sha1 NUL refs/heads/x LF sha2 NUL refs/heads/y LF\<close> on its standard output (neither
  commit id containing NUL or a newline), \<^verbatim>\<open>getMergedBranches\<close> resolves to the map
  of \<^verbatim>\<open>refs/heads/x\<close> to \<open>sha1\<close> and \<^verbatim>\<open>refs/heads/y\<close> to \<open>sha2\<close>, two entries,
  provided the canonical ref of the base branch is neither of the two keys; when it is
  one of them, that entry is left out and the map has the other entry only.
\<close>

theorem getMergedBranches_two_lines:
  assumes "exec w (mergedBranches_args branchName) (path repository) None s = (r, s1)"
      and "exitCode r = 0"
      and "stdout r = sha1 @ NUL # ''refs/heads/x'' @ LF # sha2 @ NUL # ''refs/heads/y'' @ [LF]"
      and "NUL \<notin> set sha1" "LF \<notin> set sha1" "NUL \<notin> set sha2" "LF \<notin> set sha2"
  shows "result_of (getMergedBranches w repository branchName) s
           = Inr (if formatAsLocalRef w branchName = ''refs/heads/x''
                  then [''refs/heads/y'' \<mapsto> sha2]
                  else if formatAsLocalRef w branchName = ''refs/heads/y''
                  then [''refs/heads/x'' \<mapsto> sha1]
                  else [''refs/heads/x'' \<mapsto> sha1, ''refs/heads/y'' \<mapsto> sha2])
       \<and> card (dom [''refs/heads/x'' \<mapsto> sha1, ''refs/heads/y'' \<mapsto> sha2]) = 2"
proof -
  let ?l1 = "sha1 @ NUL # ''refs/heads/x''" and ?l2 = "sha2 @ NUL # ''refs/heads/y''"
  have seps: "LF \<notin> set ?l1" "LF \<notin> set ?l2"
    using assms(5,7) by (simp_all add: LF_def NUL_def)
  have "stdout r = ?l1 @ LF # (?l2 @ LF # [])"
    using assms(3) by simp
  then have "split_js LF (stdout r) = split_js LF ?l1 @ split_js LF ?l2 @ split_js LF []"
    by (simp only: split_js_append)
  also have "\<dots> = [?l1, ?l2, []]"
    by (simp only: split_js_no_sep [OF seps(1)] split_js_no_sep [OF seps(2)] split_js.simps(1)
          append.simps)
  finally have lines: "butlast (split_js LF (stdout r)) = [?l1, ?l2]"
    by simp
  have refs: "NUL \<notin> set ''refs/heads/x''" "NUL \<notin> set ''refs/heads/y''"
    by (simp_all add: NUL_def)
  have fields: "split_js NUL ?l1 = [sha1, ''refs/heads/x'']"
    "split_js NUL ?l2 = [sha2, ''refs/heads/y'']"
    by (rule line_fields [OF assms(4) refs(1)], rule line_fields [OF assms(6) refs(2)])
  have "mergedBranches_loop (formatAsLocalRef w branchName) [?l1, ?l2] Map.empty
          = (if formatAsLocalRef w branchName = ''refs/heads/x''
             then [''refs/heads/y'' \<mapsto> sha2]
             else if formatAsLocalRef w branchName = ''refs/heads/y''
             then [''refs/heads/x'' \<mapsto> sha1]
             else [''refs/heads/x'' \<mapsto> sha1, ''refs/heads/y'' \<mapsto> sha2])"
    by (simp add: fields Let_def)
  then have "result_of (getMergedBranches w repository branchName) s
           = Inr (if formatAsLocalRef w branchName = ''refs/heads/x''
                  then [''refs/heads/y'' \<mapsto> sha2]
                  else if formatAsLocalRef w branchName = ''refs/heads/y''
                  then [''refs/heads/x'' \<mapsto> sha1]
                  else [''refs/heads/x'' \<mapsto> sha1, ''refs/heads/y'' \<mapsto> sha2])"
    by (simp only: getMergedBranches_run [OF assms(1)] lines assms(2) refl if_True)
  moreover have "card (dom [''refs/heads/x'' \<mapsto> sha1, ''refs/heads/y'' \<mapsto> sha2]) = 2"
    by simp
  ultimately show ?thesis by blast
qed

theorem getMergedBranches_two_lines_witness:
  "result_of (getMergedBranches (fixed_world succeeded two_line_listing (Inr None) (Inr ()))
       repo0 ''main'') ()
     = Inr [''refs/heads/x'' \<mapsto> ''1f2e3d'', ''refs/heads/y'' \<mapsto> ''4c5b6a'']
   \<and> card (dom [''refs/heads/x'' \<mapsto> ''1f2e3d'', ''refs/heads/y'' \<mapsto> ''4c5b6a'']) = 2"
proof -
  let ?w = "fixed_world succeeded two_line_listing (Inr None) (Inr ()) :: (unit, string) world"
  have x: "exec ?w (mergedBranches_args ''main'') (path repo0) None () = (two_line_listing, ())"
    by (simp add: fixture_defs mergedBranches_args_def)
  have z: "exitCode two_line_listing = 0"
    by (simp add: fixture_defs)
  have out: "stdout two_line_listing
      = ''1f2e3d'' @ NUL # ''refs/heads/x'' @ LF # ''4c5b6a'' @ NUL # ''refs/heads/y'' @ [LF]"
    by (simp add: fixture_defs)
  have shas: "NUL \<notin> set ''1f2e3d''" "LF \<notin> set ''1f2e3d''" "NUL \<notin> set ''4c5b6a''"
    "LF \<notin> set ''4c5b6a''"
    by (simp_all add: NUL_def LF_def)
  from getMergedBranches_two_lines [OF x z out shas] show ?thesis
    by (simp add: fixture_defs)
qed

text \<open>
  The claim as first stated, for every base branch, fails for the base branch \<open>x\<close>:
  the listing of the branches merged into \<open>x\<close> names \<open>x\<close> itself, and the result has
  one entry.
\<close>

theorem getMergedBranches_two_lines_counterexample:
  "stdout two_line_listing
     = ''1f2e3d'' @ NUL # ''refs/heads/x'' @ LF # ''4c5b6a'' @ NUL # ''refs/heads/y'' @ [LF]
   \<and> result_of (getMergedBranches (fixed_world succeeded two_line_listing (Inr None) (Inr ()))
         repo0 ''x'') ()
       = Inr [''refs/heads/y'' \<mapsto> ''4c5b6a'']
   \<and> result_of (getMergedBranches (fixed_world succeeded two_line_listing (Inr None) (Inr ()))
         repo0 ''x'') ()
       \<noteq> Inr [''refs/heads/x'' \<mapsto> ''1f2e3d'', ''refs/heads/y'' \<mapsto> ''4c5b6a'']
   \<and> card (dom [''refs/heads/y'' \<mapsto> ''4c5b6a'']) = 1"
proof -
  have run: "result_of (getMergedBranches
                 (fixed_world succeeded two_line_listing (Inr None) (Inr ())) repo0 ''x'') ()
               = Inr [''refs/heads/y'' \<mapsto> ''4c5b6a'']"
    by (simp add: getMergedBranches_def mergedBranches_args_def result_of_def io_defs git_def
          noOptions_def fixture_defs Let_def NUL_def LF_def)
  have "[''refs/heads/y'' \<mapsto> ''4c5b6a'']
          \<noteq> [''refs/heads/x'' \<mapsto> ''1f2e3d'', ''refs/heads/y'' \<mapsto> ''4c5b6a'']"
  proof
    assume "[''refs/heads/y'' \<mapsto> ''4c5b6a'']
              = [''refs/heads/x'' \<mapsto> ''1f2e3d'', ''refs/heads/y'' \<mapsto> ''4c5b6a'']"
    then have "[''refs/heads/y'' \<mapsto> ''4c5b6a''] ''refs/heads/x''
              = [''refs/heads/x'' \<mapsto> ''1f2e3d'', ''refs/heads/y'' \<mapsto> ''4c5b6a'']
                  ''refs/heads/x''"
      by (rule arg_cong)
    then show False by simp
  qed
  with run show ?thesis
    by (simp add: fixture_defs)
qed

end
